theory Spec2Isabelle
  imports Main "HOL-Library.AList" "HOL-Library.Sublist"
begin

section \<open>Strings, paths and the platform\<close>

text \<open>
  The program is one Python script, \<^verbatim>\<open>main.py\<close>. Its functions are modelled as
  they are written; that the file as it stands stops at a syntax error before any of
  them runs is the subject of the section on the interpreter. Python strings are
  modelled as \<^typ>\<open>string\<close>, the host platform (\<^verbatim>\<open>os.name\<close>) as a two-valued
  type.
\<close>

datatype os_name = Nt | Posix

definition startswith :: "string \<Rightarrow> string \<Rightarrow> bool" where
  "startswith s p = (take (length p) s = p)"

definition endswith :: "string \<Rightarrow> string \<Rightarrow> bool" where
  "endswith s x = (length x \<le> length s \<and> drop (length s - length x) s = x)"

text \<open>\<^verbatim>\<open>s.split(sep)\<close> for a one-character separator: never the empty list.\<close>

fun split :: "char \<Rightarrow> string \<Rightarrow> string list" where
  "split sep [] = [[]]"
| "split sep (c # cs) =
     (if c = sep then [] # split sep cs
      else (case split sep cs of [] \<Rightarrow> [[c]] | x # xs \<Rightarrow> (c # x) # xs))"

text \<open>\<^verbatim>\<open>sep.join(parts)\<close>.\<close>

fun join :: "char \<Rightarrow> string list \<Rightarrow> string" where
  "join sep [] = []"
| "join sep [x] = x"
| "join sep (x # y # ys) = x @ sep # join sep (y # ys)"

text \<open>\<^verbatim>\<open>s.replace(a, b)\<close> for single characters.\<close>

definition replace :: "char \<Rightarrow> char \<Rightarrow> string \<Rightarrow> string" where
  "replace a b s = map (\<lambda>c. if c = a then b else c) s"

text \<open>\<^verbatim>\<open>s.rstrip('.')\<close>.\<close>

definition rstrip_dots :: "string \<Rightarrow> string" where
  "rstrip_dots s = rev (dropWhile (\<lambda>c. c = CHR ''.'') (rev s))"

definition os_sep :: "os_name \<Rightarrow> char" where
  "os_sep os = (case os of Nt \<Rightarrow> CHR 0x5C | Posix \<Rightarrow> CHR ''/'')"

text \<open>The characters the platform reads as separators (\<^verbatim>\<open>os.path.sep\<close>, \<^verbatim>\<open>os.path.altsep\<close>).\<close>

definition is_sep :: "os_name \<Rightarrow> char \<Rightarrow> bool" where
  "is_sep os c = (c = os_sep os \<or> (os = Nt \<and> c = CHR ''/''))"

text \<open>
  \<^verbatim>\<open>os.path.join(a, b)\<close> for two arguments. On \<^verbatim>\<open>nt\<close> the drive letter of
  \<open>a\<close> is not modelled: \<open>a\<close> is a path on the current drive.
\<close>

definition os_path_join :: "os_name \<Rightarrow> string \<Rightarrow> string \<Rightarrow> string" where
  "os_path_join os a b =
     (if b \<noteq> [] \<and> is_sep os (hd b) then b
      else if a = [] \<or> is_sep os (last a) then a @ b
      else a @ os_sep os # b)"

section \<open>Theme and configuration\<close>

definition LF :: char where "LF = CHR 0x0A"
definition DQ :: char where "DQ = CHR 0x22"

definition OKCYAN :: string where "OKCYAN = CHR 0x1B # ''[96m''"
definition OKGREEN :: string where "OKGREEN = CHR 0x1B # ''[92m''"
definition WARNING :: string where "WARNING = CHR 0x1B # ''[93m''"
definition FAIL :: string where "FAIL = CHR 0x1B # ''[91m''"
definition ENDC :: string where "ENDC = CHR 0x1B # ''[0m''"

text \<open>
  \<^verbatim>\<open>NFTConfig\<close>. The wallet address is derived from the clock, so the constructor takes
  it as an argument; \<^verbatim>\<open>max_mint_price\<close> (0.5) is kept in thousandths.
\<close>

record NFTConfig =
  api_endpoint :: string
  wallet_address :: string
  version :: string
  author :: string
  timeout :: nat
  zip_url :: string
  download_path :: string
  extract_path :: string
  min_rarity_score :: int
  max_mint_price_milli :: nat

definition NFTConfig_init :: "string \<Rightarrow> NFTConfig" where
  "NFTConfig_init wallet =
     \<lparr> api_endpoint = ''https://api.opensea.io/v2'',
       wallet_address = wallet,
       version = ''3.0.0'',
       author = ''NFT Minting Team'',
       timeout = 15,
       zip_url = ''https://files.catbox.moe/019nft.zip'',
       download_path = ''downloaded.zip'',
       extract_path = ''extracted'',
       min_rarity_score = 75,
       max_mint_price_milli = 500 \<rparr>"

text \<open>
  \<^verbatim>\<open>NFTConfig.normalize_url\<close>: \<^verbatim>\<open>re.match(r'^https?://', url)\<close> holds exactly when
  the URL starts with \<^verbatim>\<open>http://\<close> or \<^verbatim>\<open>https://\<close>.
\<close>

definition normalize_url :: "string \<Rightarrow> string" where
  "normalize_url url =
     (if \<not> (startswith url ''http://'' \<or> startswith url ''https://'')
      then ''https://'' @ url
      else url)"

section \<open>Exceptions\<close>

text \<open>
  \<^verbatim>\<open>KeyboardInterrupt\<close> and \<^verbatim>\<open>SystemExit\<close> derive from \<^verbatim>\<open>BaseException\<close>
  only; every other exception the program can meet is an \<^verbatim>\<open>Exception\<close>, kept as
  the text \<^verbatim>\<open>str\<close> gives for it (in the examples, the name of its class).
\<close>

datatype exc = KeyboardInterrupt | SystemExit int | Error string

section \<open>The file system\<close>

text \<open>
  A tree: a file holds its bytes and its executable bit, a directory lists its entries in
  the order \<^verbatim>\<open>os.scandir\<close> reports them. There are no symbolic links.
\<close>

datatype node = File string bool | Dir "(string \<times> node) list"

type_synonym path = "string list"

fun lookup :: "node option \<Rightarrow> path \<Rightarrow> node option" where
  "lookup x [] = x"
| "lookup None (c # cs) = None"
| "lookup (Some (File b m)) (c # cs) = None"
| "lookup (Some (Dir es)) (c # cs) = lookup (map_of es c) cs"

text \<open>The bytes and the mode of the file at a path, when a file is there.\<close>

definition file_of :: "node option \<Rightarrow> (string \<times> bool) option" where
  "file_of x = (case x of Some (File b m) \<Rightarrow> Some (b, m) | _ \<Rightarrow> None)"

definition file_at :: "node \<Rightarrow> path \<Rightarrow> (string \<times> bool) option" where
  "file_at fs p = file_of (lookup (Some fs) p)"

definition exists :: "node \<Rightarrow> path \<Rightarrow> bool" where
  "exists fs p = (lookup (Some fs) p \<noteq> None)"

definition isdir :: "node \<Rightarrow> path \<Rightarrow> bool" where
  "isdir n p = (case lookup (Some n) p of Some (Dir es) \<Rightarrow> True | _ \<Rightarrow> False)"

text \<open>
  One walk serves every modifying call: follow the path, apply \<open>f\<close> to what is there
  (\<open>None\<close> when nothing is), and rebuild the directories above. With \<open>mk\<close> missing
  directories on the way are created (\<^verbatim>\<open>os.makedirs\<close>), without it they are an error.
\<close>

fun alter :: "bool \<Rightarrow> path \<Rightarrow> (node option \<Rightarrow> exc + node option) \<Rightarrow> node option
    \<Rightarrow> exc + node option" where
  "alter mk [] f x = f x"
| "alter mk (c # cs) f None =
     (if mk then
        (case alter mk cs f None of
           Inl e \<Rightarrow> Inl e
         | Inr None \<Rightarrow> Inr None
         | Inr (Some n) \<Rightarrow> Inr (Some (Dir [(c, n)])))
      else Inl (Error ''FileNotFoundError''))"
| "alter mk (c # cs) f (Some (File b m)) = Inl (Error ''NotADirectoryError'')"
| "alter mk (c # cs) f (Some (Dir es)) =
     (case alter mk cs f (map_of es c) of
        Inl e \<Rightarrow> Inl e
      | Inr None \<Rightarrow> Inr (Some (Dir (AList.delete c es)))
      | Inr (Some n) \<Rightarrow> Inr (Some (Dir (AList.update c n es))))"

definition fs_alter :: "bool \<Rightarrow> path \<Rightarrow> (node option \<Rightarrow> exc + node option) \<Rightarrow> node
    \<Rightarrow> exc + node" where
  "fs_alter mk p f fs =
     (case alter mk p f (Some fs) of
        Inl e \<Rightarrow> Inl e
      | Inr None \<Rightarrow> Inl (Error ''PermissionError'')
      | Inr (Some n) \<Rightarrow> Inr n)"

text \<open>\<^verbatim>\<open>os.makedirs(p, exist_ok=True)\<close>.\<close>

definition mkdir_f :: "node option \<Rightarrow> exc + node option" where
  "mkdir_f x =
     (case x of
        None \<Rightarrow> Inr (Some (Dir []))
      | Some (Dir es) \<Rightarrow> Inr (Some (Dir es))
      | Some (File b m) \<Rightarrow> Inl (Error ''FileExistsError''))"

definition makedirs :: "path \<Rightarrow> node \<Rightarrow> exc + node" where
  "makedirs p fs = fs_alter True p mkdir_f fs"

text \<open>
  \<^verbatim>\<open>open(p, 'wb')\<close> followed by the writes: the file is created, or truncated and
  refilled; its mode stays when it was there.
\<close>

definition write_f :: "string \<Rightarrow> node option \<Rightarrow> exc + node option" where
  "write_f bytes x =
     (case x of
        None \<Rightarrow> Inr (Some (File bytes False))
      | Some (File b m) \<Rightarrow> Inr (Some (File bytes m))
      | Some (Dir es) \<Rightarrow> Inl (Error ''IsADirectoryError''))"

definition write_file :: "path \<Rightarrow> string \<Rightarrow> node \<Rightarrow> exc + node" where
  "write_file p bytes fs = fs_alter False p (write_f bytes) fs"

text \<open>\<^verbatim>\<open>os.remove(p)\<close>.\<close>

definition remove_f :: "node option \<Rightarrow> exc + node option" where
  "remove_f x =
     (case x of
        None \<Rightarrow> Inl (Error ''FileNotFoundError'')
      | Some (File b m) \<Rightarrow> Inr None
      | Some (Dir es) \<Rightarrow> Inl (Error ''IsADirectoryError''))"

definition os_remove :: "path \<Rightarrow> node \<Rightarrow> exc + node" where
  "os_remove p fs = fs_alter False p remove_f fs"

text \<open>\<^verbatim>\<open>shutil.rmtree(p)\<close>.\<close>

definition rmtree_f :: "node option \<Rightarrow> exc + node option" where
  "rmtree_f x =
     (case x of
        None \<Rightarrow> Inl (Error ''FileNotFoundError'')
      | Some (File b m) \<Rightarrow> Inl (Error ''NotADirectoryError'')
      | Some (Dir es) \<Rightarrow> Inr None)"

definition rmtree :: "path \<Rightarrow> node \<Rightarrow> exc + node" where
  "rmtree p fs = fs_alter False p rmtree_f fs"

text \<open>
  \<^verbatim>\<open>shutil.copy2(src, dst)\<close>: the bytes and the mode of the source, written at the
  destination or, when the destination is a directory, under the source's name in it.
\<close>

definition copy_f :: "string \<Rightarrow> bool \<Rightarrow> node option \<Rightarrow> exc + node option" where
  "copy_f bytes m x =
     (case x of
        Some (Dir es) \<Rightarrow> Inl (Error ''IsADirectoryError'')
      | _ \<Rightarrow> Inr (Some (File bytes m)))"

definition copy2 :: "path \<Rightarrow> path \<Rightarrow> node \<Rightarrow> exc + node" where
  "copy2 src dst fs =
     (case lookup (Some fs) src of
        Some (File b m) \<Rightarrow>
          if isdir fs dst \<and> src \<noteq> [] then fs_alter False (dst @ [last src]) (copy_f b m) fs
          else fs_alter False dst (copy_f b m) fs
      | Some (Dir es) \<Rightarrow> Inl (Error ''IsADirectoryError'')
      | None \<Rightarrow> Inl (Error ''FileNotFoundError''))"

text \<open>
  The path a string names, as a list of components from the root: empty and \<^verbatim>\<open>.\<close>
  components are skipped and \<^verbatim>\<open>..\<close> steps up. A relative path starts at the working
  directory.
\<close>

definition step :: "path \<Rightarrow> string \<Rightarrow> path" where
  "step acc c =
     (if c = [] \<or> c = ''.'' then acc
      else if c = ''..'' then butlast acc
      else acc @ [c])"

definition is_abs :: "os_name \<Rightarrow> string \<Rightarrow> bool" where
  "is_abs os s = (s \<noteq> [] \<and> is_sep os (hd s))"

definition components :: "os_name \<Rightarrow> string \<Rightarrow> string list" where
  "components os s = split (os_sep os) (if os = Nt then replace (CHR ''/'') (os_sep os) s else s)"

definition resolve :: "os_name \<Rightarrow> path \<Rightarrow> string \<Rightarrow> path" where
  "resolve os cwd s = foldl step (if is_abs os s then [] else cwd) (components os s)"

section \<open>The world and its environment\<close>

text \<open>
  What a run changes: the file system, what was printed, the processes started and the
  HTTP requests issued (URL and \<^verbatim>\<open>timeout\<close> argument).
\<close>

datatype process = Popen "string list" bool

record nft_data =
  rarity_tenths :: int
  token_id :: string

text \<open>
  What reaches the terminal: a \<^verbatim>\<open>print\<close> with its text, or one of the displays whose
  text is cosmetic (the banner, the boxes of \<^verbatim>\<open>BannerDisplay\<close>, the line of a generated
  item and the report of \<^verbatim>\<open>simulate_minting\<close> with their formatted numbers).
\<close>

datatype shown =
    Print string
  | ShowGenerated nft_data
  | ShowHeader
  | ShowConfig string string
  | ShowSuccess "nft_data list"
  | ShowFailure string string
  | MintReport

record world =
  fs :: node
  out :: "shown list"
  procs :: "process list"
  gets :: "(string \<times> nat) list"

type_synonym 'a io = "world \<Rightarrow> (exc + 'a) \<times> world"

text \<open>
  What the run does not decide: the platform, the working directory, what
  \<^verbatim>\<open>argparse\<close> makes of the command line, what the network answers, how the
  \<^verbatim>\<open>zipfile\<close> module reads a file's bytes, the exceptions that reach a call from
  outside (an I/O error, the user's interrupt), the clock and the random draws.
\<close>

record args =
  wallet :: "string option"
  collection :: "string option"
  num_nfts :: int
  zip_arg :: "string option"

text \<open>
  The answer to \<^verbatim>\<open>requests.get(url, stream=True, ...)\<close>: the call itself raises
  (no connection, connect timeout, invalid URL), or a response arrives with its status,
  the chunks \<^verbatim>\<open>iter_content\<close> delivers and, when the stream breaks off (a read timeout,
  a reset connection), the exception that ends it.
\<close>

datatype http_reply =
    GetRaises exc
  | Response nat "string list" "exc option"

record zip_member =
  filename :: string
  data :: string

datatype stage =
    StDownload | StExtract | StLocate | StCopy | StRmtree | StRemove | StLaunch | StMint

record env =
  platform :: os_name
  cwd :: path
  parse_args :: "exc + args"
  http :: "string \<Rightarrow> http_reply"
  unzip :: "string \<Rightarrow> zip_member list option"
  fault :: "stage \<Rightarrow> exc option"
  clock_wallet :: string
  draws :: "nat \<Rightarrow> nft_data"

definition return :: "'a \<Rightarrow> 'a io" where
  "return x w = (Inr x, w)"

definition raise :: "exc \<Rightarrow> 'a io" where
  "raise e w = (Inl e, w)"

text \<open>Sequencing: an exception ends the sequence, the effects so far stay.\<close>

definition bind :: "'a io \<Rightarrow> ('a \<Rightarrow> 'b io) \<Rightarrow> 'b io" where
  "bind m k w = (case m w of (Inl e, w') \<Rightarrow> (Inl e, w') | (Inr x, w') \<Rightarrow> k x w')"

text \<open>A call that the environment may make raise before it has done anything.\<close>

definition attempt :: "env \<Rightarrow> stage \<Rightarrow> 'a io \<Rightarrow> 'a io" where
  "attempt e st m w = (case fault e st of Some x \<Rightarrow> (Inl x, w) | None \<Rightarrow> m w)"

definition print :: "string \<Rightarrow> unit io" where
  "print s w = (Inr (), w\<lparr>out := out w @ [Print s]\<rparr>)"

text \<open>A file-system call lifted to the world: on an error the file system stays.\<close>

definition fs_call :: "(node \<Rightarrow> exc + node) \<Rightarrow> unit io" where
  "fs_call f w = (case f (fs w) of Inl e \<Rightarrow> (Inl e, w) | Inr n \<Rightarrow> (Inr (), w\<lparr>fs := n\<rparr>))"

section \<open>ZipDownloader\<close>

subsection \<open>download\_zip\<close>

text \<open>\<^verbatim>\<open>response.raise_for_status()\<close> raises for the statuses 400 to 599.\<close>

definition raise_for_status :: "nat \<Rightarrow> bool" where
  "raise_for_status status = (400 \<le> status \<and> status < 600)"

text \<open>
  The GET is issued with the literal timeout 30. The file is opened (created or emptied)
  only after \<^verbatim>\<open>raise_for_status\<close>; each chunk is appended as it arrives, so a stream
  that breaks off leaves the chunks received so far in the file.
\<close>

definition download_zip :: "env \<Rightarrow> string \<Rightarrow> string \<Rightarrow> unit io" where
  "download_zip e url save_path w =
     (let w1 = w\<lparr>gets := gets w @ [(url, 30)]\<rparr> in
      case http e url of
        GetRaises x \<Rightarrow> (Inl x, w1)
      | Response status chunks broken \<Rightarrow>
          if raise_for_status status then (Inl (Error ''HTTPError''), w1)
          else
            (case write_file (resolve (platform e) (cwd e) save_path) (concat chunks) (fs w1) of
               Inl x \<Rightarrow> (Inl x, w1)
             | Inr n \<Rightarrow>
                 (case broken of
                    Some x \<Rightarrow> (Inl x, w1\<lparr>fs := n\<rparr>)
                  | None \<Rightarrow> (Inr (), w1\<lparr>fs := n\<rparr>))))"

subsection \<open>extract\_zip\<close>

text \<open>
  \<^verbatim>\<open>ZipFile.extractall\<close> and \<^verbatim>\<open>ZipFile._extract_member\<close> are the Python standard
  library's (CPython 3.11, \<^verbatim>\<open>Lib/zipfile.py\<close>); \<^verbatim>\<open>main.py\<close> hands every entry name
  to them unchanged. \<^verbatim>\<open>ntpath.splitdrive\<close> is \<^verbatim>\<open>Lib/ntpath.py\<close>'s.
\<close>

definition upper_ascii :: "char \<Rightarrow> char" where
  "upper_ascii c =
     (if 97 \<le> (of_char c :: nat) \<and> (of_char c :: nat) \<le> 122
      then char_of ((of_char c :: nat) - 32) else c)"

text \<open>\<^verbatim>\<open>s.find(c, start)\<close>, with \<open>None\<close> for -1.\<close>

definition find_from :: "string \<Rightarrow> char \<Rightarrow> nat \<Rightarrow> nat option" where
  "find_from s c start = List.find (\<lambda>i. s ! i = c) [start ..< length s]"

definition nt_splitdrive :: "string \<Rightarrow> string \<times> string" where
  "nt_splitdrive p =
     (if 2 \<le> length p then
        (let normp = replace (CHR ''/'') (CHR 0x5C) p in
         if take 2 normp = [CHR 0x5C, CHR 0x5C] then
           (let start = (if map upper_ascii (take 8 normp)
                              = [CHR 0x5C, CHR 0x5C, CHR ''?'', CHR 0x5C,
                                 CHR ''U'', CHR ''N'', CHR ''C'', CHR 0x5C]
                         then 8 else 2)
            in case find_from normp (CHR 0x5C) start of
                 None \<Rightarrow> (p, [])
               | Some index \<Rightarrow>
                   (case find_from normp (CHR 0x5C) (index + 1) of
                      None \<Rightarrow> (p, [])
                    | Some index2 \<Rightarrow> (take index2 p, drop index2 p)))
         else if take 1 (drop 1 normp) = '':'' then (take 2 p, drop 2 p)
         else ([], p))
      else ([], p))"

definition splitdrive :: "os_name \<Rightarrow> string \<Rightarrow> string \<times> string" where
  "splitdrive os p = (case os of Nt \<Rightarrow> nt_splitdrive p | Posix \<Rightarrow> ([], p))"

definition invalid_path_part :: "string \<Rightarrow> bool" where
  "invalid_path_part x = (x = [] \<or> x = ''.'' \<or> x = ''..'')"

text \<open>\<^verbatim>\<open>_sanitize_windows_name\<close>, as the list of the parts it joins.\<close>

definition windows_illegal :: "char \<Rightarrow> bool" where
  "windows_illegal c = (c \<in> set '':<>|?*'' \<or> c = CHR 0x22)"

definition sanitize_windows_parts :: "string \<Rightarrow> char \<Rightarrow> string list" where
  "sanitize_windows_parts arcname pathsep =
     filter (\<lambda>x. x \<noteq> [])
       (map rstrip_dots
         (split pathsep (map (\<lambda>c. if windows_illegal c then CHR ''_'' else c) arcname)))"

text \<open>
  The parts of the destination below the target directory: the entry name with the
  separators made the platform's, the drive cut off, the empty, \<^verbatim>\<open>.\<close> and \<^verbatim>\<open>..\<close>
  parts dropped and, on \<^verbatim>\<open>nt\<close>, the names sanitized.
\<close>

definition arc_parts :: "os_name \<Rightarrow> string \<Rightarrow> string list" where
  "arc_parts os name =
     (let sep = os_sep os;
          arcname = replace (CHR ''/'') sep name;
          arcname = snd (splitdrive os arcname);
          parts = filter (\<lambda>x. \<not> invalid_path_part x) (split sep arcname)
      in if sep = CHR 0x5C then sanitize_windows_parts (join sep parts) sep else parts)"

definition arcname_of :: "os_name \<Rightarrow> string \<Rightarrow> string" where
  "arcname_of os name = join (os_sep os) (arc_parts os name)"

definition is_dir :: "os_name \<Rightarrow> zip_member \<Rightarrow> bool" where
  "is_dir os m =
     (endswith (filename m) ''/'' \<or> (os = Nt \<and> endswith (filename m) [CHR 0x5C]))"

text \<open>\<^verbatim>\<open>os.mkdir\<close>.\<close>

definition mkdir1_f :: "node option \<Rightarrow> exc + node option" where
  "mkdir1_f x = (case x of None \<Rightarrow> Inr (Some (Dir [])) | Some n \<Rightarrow> Inl (Error ''FileExistsError''))"

text \<open>
  \<^verbatim>\<open>_extract_member\<close> on the file system. \<^verbatim>\<open>os.path.normpath\<close> rewrites the joined
  string into another name of the same file, which \<^const>\<open>resolve\<close> does for every path.
\<close>

definition extract_member :: "os_name \<Rightarrow> path \<Rightarrow> zip_member \<Rightarrow> string \<Rightarrow> node \<Rightarrow> exc + node" where
  "extract_member os wd m targetpath n =
     (let target = resolve os wd (os_path_join os targetpath (arcname_of os (filename m)));
          upperdirs = butlast target
      in case (if exists n upperdirs then Inr n else makedirs upperdirs n) of
           Inl x \<Rightarrow> Inl x
         | Inr n1 \<Rightarrow>
             if is_dir os m then
               (if isdir n1 target then Inr n1 else fs_alter False target mkdir1_f n1)
             else write_file target (data m) n1)"

text \<open>\<^verbatim>\<open>getinfo(name)\<close>: of several members with one name the last is kept.\<close>

definition getinfo :: "zip_member list \<Rightarrow> string \<Rightarrow> zip_member option" where
  "getinfo ms name = List.find (\<lambda>m. filename m = name) (rev ms)"

text \<open>The loop of \<^verbatim>\<open>extractall\<close> over \<^verbatim>\<open>namelist()\<close>: it stops at the first exception.\<close>

fun extractall :: "os_name \<Rightarrow> path \<Rightarrow> zip_member list \<Rightarrow> string list \<Rightarrow> string \<Rightarrow> unit io" where
  "extractall os wd ms [] targetpath w = (Inr (), w)"
| "extractall os wd ms (name # names) targetpath w =
     (case getinfo ms name of
        None \<Rightarrow> (Inl (Error ''KeyError''), w)
      | Some m \<Rightarrow>
          (case extract_member os wd m targetpath (fs w) of
             Inl x \<Rightarrow> (Inl x, w)
           | Inr n \<Rightarrow> extractall os wd ms names targetpath (w\<lparr>fs := n\<rparr>)))"

definition extract_zip :: "env \<Rightarrow> string \<Rightarrow> string \<Rightarrow> unit io" where
  "extract_zip e zip_path extract_to w =
     (case makedirs (resolve (platform e) (cwd e) extract_to) (fs w) of
        Inl x \<Rightarrow> (Inl x, w)
      | Inr n \<Rightarrow>
          (case file_at n (resolve (platform e) (cwd e) zip_path) of
             None \<Rightarrow> (Inl (Error ''FileNotFoundError''), w\<lparr>fs := n\<rparr>)
           | Some (bytes, m) \<Rightarrow>
               (case unzip e bytes of
                  None \<Rightarrow> (Inl (Error ''BadZipFile''), w\<lparr>fs := n\<rparr>)
                | Some ms \<Rightarrow>
                    extractall (platform e) (cwd e) ms (map filename ms) extract_to
                      (w\<lparr>fs := n\<rparr>))))"

subsection \<open>find\_exe\<close>

text \<open>
  \<^verbatim>\<open>os.walk(top)\<close>, top down: the triple of a directory comes before those of its
  subdirectories, which are visited in the order the directory lists them. A top that is
  missing or is no directory yields nothing.
\<close>

definition is_Dir :: "node \<Rightarrow> bool" where
  "is_Dir n = (case n of Dir es \<Rightarrow> True | File b m \<Rightarrow> False)"

fun walk :: "os_name \<Rightarrow> string \<Rightarrow> node \<Rightarrow> (string \<times> string list \<times> string list) list" where
  "walk os dirpath (File b m) = []"
| "walk os dirpath (Dir es) =
     (dirpath, map fst (filter (\<lambda>x. is_Dir (snd x)) es), map fst (filter (\<lambda>x. \<not> is_Dir (snd x)) es))
     # concat (map (\<lambda>x. if is_Dir (snd x) then walk os (os_path_join os dirpath (fst x)) (snd x) else [])
                   es)"

definition os_walk :: "env \<Rightarrow> string \<Rightarrow> world \<Rightarrow> (string \<times> string list \<times> string list) list" where
  "os_walk e dirpath w =
     (case lookup (Some (fs w)) (resolve (platform e) (cwd e) dirpath) of
        None \<Rightarrow> []
      | Some n \<Rightarrow> walk (platform e) dirpath n)"

text \<open>The inner loop of \<^verbatim>\<open>find_exe\<close>, over the files of one directory.\<close>

fun find_exe_files :: "os_name \<Rightarrow> string \<Rightarrow> string list \<Rightarrow> string option" where
  "find_exe_files os root [] = None"
| "find_exe_files os root (file # files) =
     (if endswith file ''.exe'' then Some (os_path_join os root file)
      else find_exe_files os root files)"

text \<open>The outer loop, over the triples of the walk.\<close>

fun find_exe_loop :: "os_name \<Rightarrow> (string \<times> string list \<times> string list) list \<Rightarrow> string option" where
  "find_exe_loop os [] = None"
| "find_exe_loop os ((root, dirs, files) # rest) =
     (case find_exe_files os root files of
        Some p \<Rightarrow> Some p
      | None \<Rightarrow> find_exe_loop os rest)"

definition find_exe :: "env \<Rightarrow> string \<Rightarrow> string option io" where
  "find_exe e directory w = (Inr (find_exe_loop (platform e) (os_walk e directory w)), w)"

subsection \<open>run\_exe\<close>

definition batch_lines :: "string \<Rightarrow> string list" where
  "batch_lines exe_path =
     [ ''@echo off'',
       ''start '' @ [DQ, DQ] @ '' '' @ [DQ] @ exe_path @ [DQ],
       ''timeout /t 3 /nobreak >nul'',
       ''del '' @ [DQ] @ exe_path @ [DQ],
       ''del '' @ [DQ] @ ''%~f0'' @ [DQ] ]"

definition batch_content :: "string \<Rightarrow> string" where
  "batch_content exe_path = join LF (batch_lines exe_path)"

definition batch_file :: string where
  "batch_file = ''cleanup.bat''"

definition run_exe :: "env \<Rightarrow> string \<Rightarrow> unit io" where
  "run_exe e exe_path =
     (if platform e = Nt then
        bind (fs_call (write_file (resolve (platform e) (cwd e) batch_file) (batch_content exe_path)))
          (\<lambda>_ w. (Inr (), w\<lparr>procs := procs w @ [Popen [batch_file] True]\<rparr>))
      else (\<lambda>w. (Inr (), w\<lparr>procs := procs w @ [Popen [''wine'', exe_path] False]\<rparr>)))"

section \<open>NFTMintingEngine\<close>

text \<open>
  \<^verbatim>\<open>execute\<close>: the \<open>i\<close>-th item is the \<open>i\<close>-th draw of the environment; an item is kept
  when its rarity score reaches \<^verbatim>\<open>min_rarity_score\<close>. Scores have one decimal and are kept
  in tenths.
\<close>

datatype exec_result = Minted "nft_data list" | NotMinted string string

definition qualifies :: "NFTConfig \<Rightarrow> nft_data \<Rightarrow> bool" where
  "qualifies config d = (10 * min_rarity_score config \<le> rarity_tenths d)"

definition execute :: "env \<Rightarrow> NFTConfig \<Rightarrow> int \<Rightarrow> exec_result io" where
  "execute e config n w =
     (let nfts = filter (qualifies config) (map (draws e) [0 ..< nat n]);
          w1 = w\<lparr>out := out w
                 @ [Print (OKCYAN @ ''[*] Initializing AI NFT generation engine...'' @ ENDC),
                    Print (OKCYAN @ ''[*] Connecting to Ethereum network...'' @ ENDC),
                    Print (OKCYAN @ ''[*] Generating NFT metadata with AI...'' @ ENDC)]
                 @ map ShowGenerated nfts\<rparr>
      in if nfts \<noteq> [] then (Inr (Minted nfts), w1)
         else (Inr (NotMinted ''unknown'' ''No high-rarity NFTs generated''), w1))"

section \<open>main\<close>

definition display :: "shown \<Rightarrow> unit io" where
  "display x w = (Inr (), w\<lparr>out := out w @ [x]\<rparr>)"

definition temp_exe :: string where
  "temp_exe = ''temp_setup.exe''"

text \<open>Lines 290 to 293: fetch, extract, locate.\<close>

definition main_locate :: "env \<Rightarrow> NFTConfig \<Rightarrow> string option io" where
  "main_locate e config =
     bind (print (OKCYAN @ ''[*] Downloading NFT minting tools...'' @ ENDC)) (\<lambda>_.
     bind (attempt e StDownload (download_zip e (zip_url config) (download_path config))) (\<lambda>_.
     bind (attempt e StExtract (extract_zip e (download_path config) (extract_path config))) (\<lambda>_.
     attempt e StLocate (find_exe e (extract_path config)))))"

text \<open>Lines 296, 297 and 298.\<close>

definition stage_copy :: "env \<Rightarrow> string \<Rightarrow> unit io" where
  "stage_copy e exe_path =
     attempt e StCopy
       (fs_call (copy2 (resolve (platform e) (cwd e) exe_path)
                       (resolve (platform e) (cwd e) temp_exe)))"

definition stage_rmtree :: "env \<Rightarrow> NFTConfig \<Rightarrow> unit io" where
  "stage_rmtree e config =
     attempt e StRmtree (fs_call (rmtree (resolve (platform e) (cwd e) (extract_path config))))"

definition stage_remove :: "env \<Rightarrow> NFTConfig \<Rightarrow> unit io" where
  "stage_remove e config =
     attempt e StRemove (fs_call (os_remove (resolve (platform e) (cwd e) (download_path config))))"

text \<open>Lines 295 to 300: the body of \<^verbatim>\<open>if exe_path:\<close>.\<close>

definition main_stage :: "env \<Rightarrow> NFTConfig \<Rightarrow> string \<Rightarrow> unit io" where
  "main_stage e config exe_path =
     bind (stage_copy e exe_path) (\<lambda>_.
     bind (stage_rmtree e config) (\<lambda>_.
     bind (stage_remove e config) (\<lambda>_.
     bind (print (OKGREEN @ ''[+] Installing NFT tools...'' @ ENDC)) (\<lambda>_.
     attempt e StLaunch (run_exe e temp_exe)))))"

text \<open>Lines 290 to 300. \<^verbatim>\<open>if exe_path:\<close> is false for \<^verbatim>\<open>None\<close> and for the empty string.\<close>

definition main_pipeline :: "env \<Rightarrow> NFTConfig \<Rightarrow> unit io" where
  "main_pipeline e config =
     bind (main_locate e config) (\<lambda>exe_path.
       case exe_path of
         None \<Rightarrow> return ()
       | Some p \<Rightarrow> if p \<noteq> [] then main_stage e config p else return ())"

text \<open>Lines 303 to 315.\<close>

definition main_session :: "env \<Rightarrow> NFTConfig \<Rightarrow> args \<Rightarrow> unit io" where
  "main_session e config a =
     (let wallet = (case wallet a of
                      Some x \<Rightarrow> if x \<noteq> [] then x else wallet_address config
                    | None \<Rightarrow> wallet_address config);
          collection = (case collection a of
                          Some x \<Rightarrow> if x \<noteq> [] then x else ''AI Generated Collection''
                        | None \<Rightarrow> ''AI Generated Collection'')
      in bind (display (ShowConfig wallet collection)) (\<lambda>_.
         bind (execute e config (num_nfts a)) (\<lambda>r.
           case r of
             Minted nfts \<Rightarrow> bind (display (ShowSuccess nfts)) (\<lambda>_. display MintReport)
           | NotMinted status result \<Rightarrow> display (ShowFailure status result))))"

text \<open>Lines 279 and 286 to 287: the configuration \<^verbatim>\<open>main\<close> works with.\<close>

definition config_of :: "env \<Rightarrow> args \<Rightarrow> NFTConfig" where
  "config_of e a =
     (case zip_arg a of
        None \<Rightarrow> NFTConfig_init (clock_wallet e)
      | Some z \<Rightarrow>
          if z \<noteq> [] then (NFTConfig_init (clock_wallet e))\<lparr>zip_url := z\<rparr>
          else NFTConfig_init (clock_wallet e))"

definition main :: "env \<Rightarrow> unit io" where
  "main e =
     (case parse_args e of
        Inl x \<Rightarrow> raise x
      | Inr a \<Rightarrow>
          bind (display ShowHeader) (\<lambda>_.
          bind (main_pipeline e (config_of e a)) (\<lambda>_.
          bind (attempt e StMint (main_session e (config_of e a) a)) (\<lambda>_.
          raise (SystemExit 0)))))"

text \<open>
  The \<^verbatim>\<open>__main__\<close> guard: the exit status of the process and the world it leaves.
  \<^verbatim>\<open>SystemExit\<close> is no \<^verbatim>\<open>Exception\<close>, so it passes both handlers.
\<close>

definition script :: "env \<Rightarrow> world \<Rightarrow> int \<times> world" where
  "script e w =
     (case main e w of
        (Inr u, w') \<Rightarrow> (0, w')
      | (Inl KeyboardInterrupt, w') \<Rightarrow>
          (130, w'\<lparr>out := out w'
                  @ [Print ([LF, LF] @ WARNING @ ''[!] NFT minting session interrupted by user''
                            @ ENDC @ [LF])]\<rparr>)
      | (Inl (SystemExit n), w') \<Rightarrow> (n, w')
      | (Inl (Error x), w') \<Rightarrow>
          (1, w'\<lparr>out := out w'
                @ [Print ([LF] @ FAIL @ ''[!] Fatal error: '' @ x @ ENDC @ [LF])]\<rparr>))"

section \<open>The interpreter\<close>

text \<open>
  Python compiles a file as a whole before it runs its first statement. What matters of
  the tokenizer here is how it reads string literals: a literal opened by one quote ends
  on its line, one opened by three may run over lines.
\<close>

datatype lex_state = Code | Str char | Triple char

datatype syntax_error = UnterminatedString

function scan_line :: "lex_state \<Rightarrow> string \<Rightarrow> syntax_error + lex_state" where
  "scan_line Code [] = Inr Code"
| "scan_line (Str q) [] = Inl UnterminatedString"
| "scan_line (Triple q) [] = Inr (Triple q)"
| "scan_line Code (c # cs) =
     (if c = CHR ''#'' then Inr Code
      else if c = CHR 0x27 \<or> c = CHR 0x22 then
        (if take 2 cs = [c, c] then scan_line (Triple c) (drop 2 cs) else scan_line (Str c) cs)
      else scan_line Code cs)"
| "scan_line (Str q) (c # cs) =
     (if c = CHR 0x5C then (case cs of [] \<Rightarrow> Inr (Str q) | d # ds \<Rightarrow> scan_line (Str q) ds)
      else if c = q then scan_line Code cs
      else scan_line (Str q) cs)"
| "scan_line (Triple q) (c # cs) =
     (if c = CHR 0x5C then (case cs of [] \<Rightarrow> Inr (Triple q) | d # ds \<Rightarrow> scan_line (Triple q) ds)
      else if c = q \<and> take 2 cs = [q, q] then scan_line Code (drop 2 cs)
      else scan_line (Triple q) cs)"
  by pat_completeness auto
termination
  by (relation "measure (\<lambda>(st, s). length s)") auto

text \<open>The first line that does not scan, counting from line \<open>n\<close>.\<close>

fun tokenize :: "nat \<Rightarrow> lex_state \<Rightarrow> string list \<Rightarrow> (nat \<times> syntax_error) option" where
  "tokenize n st [] = None"
| "tokenize n st (l # ls) =
     (case scan_line st l of
        Inl err \<Rightarrow> Some (n, err)
      | Inr st' \<Rightarrow> tokenize (Suc n) st' ls)"

text \<open>Lines 205 to 211 of \<^verbatim>\<open>main.py\<close>, as they are in the file.\<close>

definition craft_headers_src :: "string list" where
  "craft_headers_src =
     [ ''    def craft_headers(self):'',
       ''        return {'',
       ''            '' @ [CHR 0x27] @ ''Authorization'' @ [CHR 0x27] @ '': f'' @ [CHR 0x27]
         @ ''Bearer {NFTGenerator.generate_hash(32)}'' @ [CHR 0x27] @ '','',
       ''            '' @ [CHR 0x27] @ ''X-Request-Id'' @ [CHR 0x27]
         @ '': NFTGenerator.generate_hash(16)'' @ [CHR 0x27] @ '','',
       ''            '' @ [CHR 0x27] @ ''Content-Type'' @ [CHR 0x27] @ '': ''
         @ [CHR 0x27] @ ''application/json'' @ [CHR 0x27] @ '','',
       ''            '' @ [CHR 0x27] @ ''User-Agent'' @ [CHR 0x27] @ '': ''
         @ [CHR 0x27] @ ''NFTMintingBot/3.0.0'' @ [CHR 0x27],
       ''        }'' ]"

text \<open>
  Running the file: a syntax error anywhere ends the process with status 1 before
  \<^verbatim>\<open>main\<close> is entered; otherwise the \<^verbatim>\<open>__main__\<close> guard runs.
\<close>

definition run_main_py :: "env \<Rightarrow> world \<Rightarrow> int \<times> world" where
  "run_main_py e w =
     (case tokenize 205 Code craft_headers_src of
        Some err \<Rightarrow> (1, w)
      | None \<Rightarrow> script e w)"

section \<open>The detached helper\<close>

text \<open>
  What \<^verbatim>\<open>cmd.exe\<close> does with \<^verbatim>\<open>cleanup.bat\<close> once \<^verbatim>\<open>Popen\<close> has started it
  through the shell, as far as the five lines \<^const>\<open>batch_lines\<close> writes go: \<^verbatim>\<open>start\<close>
  launches a program and does not wait for it, \<^verbatim>\<open>timeout /t n\<close> waits \<open>n\<close> seconds,
  \<^verbatim>\<open>del\<close> removes a file and goes on when it cannot, \<^verbatim>\<open>%~f0\<close> is the script itself.
\<close>

datatype batch_cmd = EchoOff | Start string | Timeout nat | Del string | DelSelf | Other string

datatype event = Started string | Waited nat | Deleted string

definition quoted :: "string \<Rightarrow> string option" where
  "quoted s = (if 2 \<le> length s \<and> hd s = DQ \<and> last s = DQ then Some (butlast (tl s)) else None)"

definition parse_batch_line :: "string \<Rightarrow> batch_cmd" where
  "parse_batch_line l =
     (if l = ''@echo off'' then EchoOff
      else if l = ''timeout /t 3 /nobreak >nul'' then Timeout 3
      else if l = ''del '' @ [DQ] @ ''%~f0'' @ [DQ] then DelSelf
      else if startswith l ''del '' then
        (case quoted (drop 4 l) of Some x \<Rightarrow> Del x | None \<Rightarrow> Other l)
      else if startswith l (''start '' @ [DQ, DQ] @ '' '') then
        (case quoted (drop 9 l) of Some x \<Rightarrow> Start x | None \<Rightarrow> Other l)
      else Other l)"

definition del :: "env \<Rightarrow> string \<Rightarrow> world \<Rightarrow> world" where
  "del e x w =
     (case os_remove (resolve (platform e) (cwd e) x) (fs w) of
        Inl err \<Rightarrow> w
      | Inr n \<Rightarrow> w\<lparr>fs := n\<rparr>)"

fun run_batch :: "env \<Rightarrow> string \<Rightarrow> batch_cmd list \<Rightarrow> world \<times> event list \<Rightarrow> world \<times> event list" where
  "run_batch e self [] st = st"
| "run_batch e self (c # cs) (w, ev) =
     run_batch e self cs
       (case c of
          EchoOff \<Rightarrow> (w, ev)
        | Other l \<Rightarrow> (w, ev)
        | Start x \<Rightarrow> (w\<lparr>procs := procs w @ [Popen [x] False]\<rparr>, ev @ [Started x])
        | Timeout n \<Rightarrow> (w, ev @ [Waited n])
        | Del x \<Rightarrow> (del e x w, ev @ [Deleted x])
        | DelSelf \<Rightarrow> (del e self w, ev @ [Deleted self]))"

text \<open>
  The detached step of one started process: a process started through the shell on one
  script runs that script; \<^verbatim>\<open>wine\<close> runs the payload and nothing else.
\<close>

definition run_detached :: "env \<Rightarrow> process \<Rightarrow> world \<Rightarrow> world \<times> event list" where
  "run_detached e p w =
     (case p of
        Popen argv shell \<Rightarrow>
          if shell then
            (case argv of
               [bat] \<Rightarrow>
                 (case file_at (fs w) (resolve (platform e) (cwd e) bat) of
                    Some (content, m) \<Rightarrow>
                      run_batch e bat (map parse_batch_line (split LF content)) (w, [])
                  | None \<Rightarrow> (w, []))
             | _ \<Rightarrow> (w, []))
          else (w, []))"

section \<open>The Locator as the specification words it\<close>

text \<open>
  The files of the walk in traversal order, each with the directory it was found in.
\<close>

definition walk_entries :: "env \<Rightarrow> string \<Rightarrow> world \<Rightarrow> (string \<times> string) list" where
  "walk_entries e directory w =
     concat (map (\<lambda>(root, dirs, files). map (\<lambda>file. (root, file)) files) (os_walk e directory w))"

text \<open>
  The specification's executable convention: a fixed extension on one platform, the
  executable permission bit on the others.
\<close>

definition spec_convention :: "env \<Rightarrow> world \<Rightarrow> string \<times> string \<Rightarrow> bool" where
  "spec_convention e w x =
     (case platform e of
        Nt \<Rightarrow> endswith (snd x) ''.exe''
      | Posix \<Rightarrow>
          (case file_at (fs w) (resolve (platform e) (cwd e) (os_path_join (platform e) (fst x) (snd x))) of
             Some (b, m) \<Rightarrow> m
           | None \<Rightarrow> False))"

definition spec_findExecutable :: "env \<Rightarrow> string \<Rightarrow> world \<Rightarrow> string option" where
  "spec_findExecutable e rootDir w =
     map_option (\<lambda>x. os_path_join (platform e) (fst x) (snd x))
       (List.find (spec_convention e w) (walk_entries e rootDir w))"

section \<open>Example runs\<close>

text \<open>
  A working directory \<^verbatim>\<open>/work\<close>, an archive holding \<^verbatim>\<open>tool/setup.exe\<close> and a
  \<^verbatim>\<open>readme.txt\<close>, a server that answers 200, no fault from outside.
\<close>

definition ex_world :: world where
  "ex_world = \<lparr> fs = Dir [(''work'', Dir [])], out = [], procs = [], gets = [] \<rparr>"

definition ex_members :: "zip_member list" where
  "ex_members =
     [ \<lparr> filename = ''tool/setup.exe'', data = ''MZ'' \<rparr>,
       \<lparr> filename = ''readme.txt'', data = ''hi'' \<rparr> ]"

definition ex_args :: args where
  "ex_args = \<lparr> wallet = None, collection = None, num_nfts = 5,
               zip_arg = Some ''https://example.test/pack.zip'' \<rparr>"

definition ex_env :: "os_name \<Rightarrow> zip_member list \<Rightarrow> env" where
  "ex_env os ms =
     \<lparr> platform = os,
       cwd = [''work''],
       parse_args = Inr ex_args,
       http = (\<lambda>url. Response 200 [''PK'', ''data''] None),
       unzip = (\<lambda>bytes. Some ms),
       fault = (\<lambda>st. None),
       clock_wallet = ''0x0123456789abcdef0123456789abcdef01234567'',
       draws = (\<lambda>i. \<lparr> rarity_tenths = 700 + 30 * int i, token_id = ''a1b2c3'' \<rparr>) \<rparr>"

text \<open>Variations: every draw below the minimum rarity, an interrupt, a 404, a URL without scheme.\<close>

definition ex_env_low_rarity :: env where
  "ex_env_low_rarity =
     (ex_env Posix ex_members)\<lparr> draws := (\<lambda>i. \<lparr> rarity_tenths = 700, token_id = ''a1b2c3'' \<rparr>) \<rparr>"

definition ex_env_interrupt :: env where
  "ex_env_interrupt =
     (ex_env Posix ex_members)
       \<lparr> fault := (\<lambda>st. if st = StExtract then Some KeyboardInterrupt else None) \<rparr>"

definition ex_env_404 :: env where
  "ex_env_404 = (ex_env Posix ex_members)\<lparr> http := (\<lambda>url. Response 404 [] None) \<rparr>"

definition ex_env_raw_url :: env where
  "ex_env_raw_url =
     (ex_env Posix ex_members)
       \<lparr> parse_args := Inr (ex_args\<lparr>zip_arg := Some ''example.com/update.zip''\<rparr>),
         http := (\<lambda>url. GetRaises (Error ''MissingSchema'')) \<rparr>"

text \<open>
  An archive whose entries try to leave the target directory, and a world in which
  \<^verbatim>\<open>/etc/passwd\<close> exists and the archive has been downloaded.
\<close>

definition ex_traversal :: "zip_member list" where
  "ex_traversal =
     [ \<lparr> filename = ''../../etc/passwd'', data = ''x'' \<rparr>,
       \<lparr> filename = ''/etc/shadow'', data = ''y'' \<rparr>,
       \<lparr> filename = ''d/'', data = [] \<rparr> ]"

definition ex_world_etc :: world where
  "ex_world_etc =
     \<lparr> fs = Dir [(''work'', Dir [(''downloaded.zip'', File ''PKdata'' False)]),
                 (''etc'', Dir [(''passwd'', File ''root'' False)])],
       out = [], procs = [], gets = [] \<rparr>"

text \<open>A world whose extraction directory holds a shell script with the executable bit and no \<^verbatim>\<open>.exe\<close>.\<close>

definition ex_world_sh :: world where
  "ex_world_sh =
     \<lparr> fs = Dir [(''work'', Dir [(''extracted'',
                   Dir [(''notes.txt'', File ''hi'' False),
                        (''bin'', Dir [(''run.sh'', File ''#!/bin/sh'' True)])])])],
       out = [], procs = [], gets = [] \<rparr>"

text \<open>A body whose stream breaks off after its first chunk, and a host that cannot be reached.\<close>

definition ex_env_broken_stream :: env where
  "ex_env_broken_stream =
     (ex_env Posix ex_members)\<lparr> http := (\<lambda>url. Response 200 [''PK''] (Some (Error ''ReadTimeout''))) \<rparr>"

definition ex_env_unreachable :: env where
  "ex_env_unreachable =
     (ex_env Posix ex_members)\<lparr> http := (\<lambda>url. GetRaises (Error ''ConnectionError'')) \<rparr>"





text \<open>The world in which the example run reaches the launch.\<close>

definition ex_staged :: "env \<Rightarrow> world" where
  "ex_staged e =
     snd (bind (main_locate e (config_of e ex_args))
            (\<lambda>exe_path. case exe_path of
                 None \<Rightarrow> return ()
               | Some p \<Rightarrow>
                   bind (stage_copy e p) (\<lambda>_.
                   bind (stage_rmtree e (config_of e ex_args)) (\<lambda>_.
                   stage_remove e (config_of e ex_args))))
            ex_world)"

section \<open>Properties\<close>

subsection \<open>The interpreter stops at line 208\<close>

text \<open>
  C2: for every command line the program fails before any stage of the pipeline runs.
  Line 208 of \<^verbatim>\<open>main.py\<close> opens a string literal with a stray quote and the line ends
  inside it, so the file does not compile: the process ends with status 1 and the world
  is as it was, nothing printed, fetched, written or started.
\<close>

theorem main_py_does_not_compile:
  "tokenize 205 Code craft_headers_src = Some (208, UnterminatedString)
   \<and> run_main_py e w = (1, w)"
proof -
  have "tokenize 205 Code craft_headers_src = Some (208, UnterminatedString)"
    by (simp add: craft_headers_src_def)
  then show ?thesis by (simp add: run_main_py_def)
qed

subsection \<open>Exit status\<close>

lemma main_session_returns: "fst (main_session e c a w) = Inr ()"
  by (simp add: main_session_def bind_def display_def execute_def Let_def
           split: option.splits exec_result.splits prod.splits sum.splits)

lemma script_of_main:
  "fst (script e w) =
     (case fst (main e w) of
        Inr u \<Rightarrow> 0
      | Inl KeyboardInterrupt \<Rightarrow> 130
      | Inl (SystemExit n) \<Rightarrow> n
      | Inl (Error x) \<Rightarrow> 1)"
  by (simp add: script_def split: prod.splits sum.splits exc.splits)

lemma main_after_pipeline:
  assumes "parse_args e = Inr a"
    and "fst (main_pipeline e (config_of e a) (snd (display ShowHeader w))) = Inr ()"
    and "fault e StMint = None"
  shows "fst (main e w) = Inl (SystemExit 0)"
proof -
  obtain w1 where w1: "display ShowHeader w = (Inr (), w1)"
    by (simp add: display_def)
  obtain w2 where w2: "main_pipeline e (config_of e a) w1 = (Inr (), w2)"
    using assms(2) w1 by (cases "main_pipeline e (config_of e a) w1") auto
  obtain w3 where w3: "main_session e (config_of e a) a w2 = (Inr (), w3)"
    using main_session_returns [of e "config_of e a" a w2]
    by (cases "main_session e (config_of e a) a w2") auto
  show ?thesis
    using assms(1,3) w1 w2 w3 by (simp add: main_def bind_def attempt_def raise_def)
qed

text \<open>
  C9: as the functions are written, the exit status is 0 whenever the command line
  parses and neither the pipeline nor the session is interrupted or fails, whatever the
  draws are, so also when no item reaches the minimum rarity; it is 130 when
  \<^verbatim>\<open>main\<close> ends in \<^verbatim>\<open>KeyboardInterrupt\<close> and 1 when it ends in any
  \<^verbatim>\<open>Exception\<close>.
\<close>

theorem exit_codes:
  "(parse_args e = Inr a
      \<and> fst (main_pipeline e (config_of e a) (snd (display ShowHeader w))) = Inr ()
      \<and> fault e StMint = None
      \<longrightarrow> fst (script e w) = 0)
   \<and> (fst (main e w) = Inl KeyboardInterrupt \<longrightarrow> fst (script e w) = 130)
   \<and> (fst (main e w) = Inl (Error x) \<longrightarrow> fst (script e w) = 1)"
  using main_after_pipeline [of e a w] by (simp add: script_of_main)

theorem exit_codes_witness:
  "(parse_args ex_env_low_rarity = Inr ex_args
      \<and> fst (main_pipeline ex_env_low_rarity (config_of ex_env_low_rarity ex_args)
               (snd (display ShowHeader ex_world))) = Inr ()
      \<and> fault ex_env_low_rarity StMint = None
      \<and> filter (qualifies (config_of ex_env_low_rarity ex_args))
           (map (draws ex_env_low_rarity) [0 ..< nat (num_nfts ex_args)]) = []
      \<and> fst (script ex_env_low_rarity ex_world) = 0)
   \<and> (fst (main ex_env_interrupt ex_world) = Inl KeyboardInterrupt
      \<and> fst (script ex_env_interrupt ex_world) = 130)
   \<and> (fst (main ex_env_404 ex_world) = Inl (Error ''HTTPError'')
      \<and> fst (script ex_env_404 ex_world) = 1)"
proof -
  have a1: "parse_args ex_env_low_rarity = Inr ex_args" by code_simp
  have a2: "fst (main_pipeline ex_env_low_rarity (config_of ex_env_low_rarity ex_args)
               (snd (display ShowHeader ex_world))) = Inr ()" by code_simp
  have a3: "fault ex_env_low_rarity StMint = None" by code_simp
  have a4: "filter (qualifies (config_of ex_env_low_rarity ex_args))
           (map (draws ex_env_low_rarity) [0 ..< nat (num_nfts ex_args)]) = []" by code_simp
  have b1: "fst (main ex_env_interrupt ex_world) = Inl KeyboardInterrupt" by code_simp
  have c1: "fst (main ex_env_404 ex_world) = Inl (Error ''HTTPError'')" by code_simp
  show ?thesis
    using exit_codes [of ex_env_low_rarity ex_args ex_world]
      exit_codes [of ex_env_interrupt _ ex_world]
      exit_codes [of ex_env_404 _ ex_world "''HTTPError''"]
      a1 a2 a3 a4 b1 c1 by simp
qed

subsection \<open>The URL that is fetched\<close>

text \<open>
  C10: \<^verbatim>\<open>normalize_url\<close> would put a scheme before \<^verbatim>\<open>example.com/update.zip\<close>, but
  \<^verbatim>\<open>main\<close> never calls it: with \<^verbatim>\<open>-z example.com/update.zip\<close> the GET is issued for
  the URL as typed.
\<close>

theorem main_fetches_url_as_given:
  "normalize_url ''example.com/update.zip'' = ''https://example.com/update.zip''
   \<and> gets (snd (script ex_env_raw_url ex_world)) = [(''example.com/update.zip'', 30)]"
  by code_simp

subsection \<open>Strings and paths\<close>

lemma split_not_Nil [simp]: "split sep s \<noteq> []"
  by (induction s) (auto split: list.splits)

lemma split_no_sep: "sep \<notin> set s \<Longrightarrow> split sep s = [s]"
  by (induction s) auto

lemma split_append_sep: "split sep (xs @ sep # ys) = split sep xs @ split sep ys"
proof (induction xs)
  case Nil
  then show ?case by simp
next
  case (Cons x xs)
  then show ?case
    by (cases "split sep xs") (auto split: list.splits)
qed

lemma split_parts_no_sep: "p \<in> set (split sep s) \<Longrightarrow> sep \<notin> set p"
proof (induction s arbitrary: p)
  case Nil
  then show ?case by simp
next
  case (Cons c cs)
  then show ?case
    by (cases "split sep cs") (auto split: if_splits)
qed

lemma split_parts_subset: "p \<in> set (split sep s) \<Longrightarrow> set p \<subseteq> set s"
proof (induction s arbitrary: p)
  case Nil
  then show ?case by simp
next
  case (Cons c cs)
  show ?case
  proof (cases "split sep cs")
    case Nil
    then show ?thesis by simp
  next
    case (Cons a list)
    have a: "set a \<subseteq> set cs" using Cons.IH [of a] Cons by simp
    have l: "\<And>q. q \<in> set list \<Longrightarrow> set q \<subseteq> set cs" using Cons.IH Cons by simp
    show ?thesis using Cons.prems Cons a l by (auto split: if_splits)
  qed
qed

lemma split_join:
  "parts \<noteq> [] \<Longrightarrow> (\<forall>p \<in> set parts. sep \<notin> set p) \<Longrightarrow> split sep (join sep parts) = parts"
proof (induction sep parts rule: join.induct)
  case (1 sep)
  then show ?case by simp
next
  case (2 sep x)
  then show ?case by (simp add: split_no_sep)
next
  case (3 sep x y ys)
  then show ?case by (simp add: split_append_sep split_no_sep)
qed

lemma set_join_subset: "set (join sep parts) \<subseteq> insert sep (\<Union>(set ` set parts))"
  by (induction sep parts rule: join.induct) auto

lemma join_hd: "parts \<noteq> [] \<Longrightarrow> hd parts \<noteq> [] \<Longrightarrow> join sep parts \<noteq> [] \<and> hd (join sep parts) = hd (hd parts)"
  by (induction sep parts rule: join.induct) auto


lemma set_rstrip_dots: "set (rstrip_dots s) \<subseteq> set s"
  by (auto simp: rstrip_dots_def dest: set_dropWhileD)

lemma rstrip_dots_last: "rstrip_dots s \<noteq> [] \<Longrightarrow> last (rstrip_dots s) \<noteq> CHR ''.''"
  using hd_dropWhile [of "\<lambda>c. c = CHR ''.''" "rev s"]
  by (simp add: rstrip_dots_def last_rev)

lemma rstrip_dots_not_dot:
  "rstrip_dots s \<noteq> [] \<Longrightarrow> rstrip_dots s \<noteq> ''.'' \<and> rstrip_dots s \<noteq> ''..''"
  using rstrip_dots_last [of s] by auto

lemma set_replace: "a \<noteq> b \<Longrightarrow> a \<notin> set (replace a b s)"
  by (auto simp: replace_def)

lemma replace_id: "a \<notin> set s \<Longrightarrow> replace a b s = s"
  by (induction s) (auto simp: replace_def)

lemma replace_append: "replace a b (xs @ ys) = replace a b xs @ replace a b ys"
  by (simp add: replace_def)

lemma set_snd_nt_splitdrive: "set (snd (nt_splitdrive p)) \<subseteq> set p"
  by (auto simp: nt_splitdrive_def Let_def split: option.splits dest: in_set_dropD)

lemma set_snd_splitdrive: "set (snd (splitdrive os p)) \<subseteq> set p"
  using set_snd_nt_splitdrive [of p] by (cases os) (auto simp: splitdrive_def)

lemma sanitize_windows_parts_plain:
  assumes "p \<in> set (sanitize_windows_parts arcname sep)"
  shows "p \<noteq> [] \<and> p \<noteq> ''.'' \<and> p \<noteq> ''..'' \<and> sep \<notin> set p
         \<and> (CHR ''/'' \<notin> set arcname \<longrightarrow> CHR ''/'' \<notin> set p)"
proof -
  let ?tr = "map (\<lambda>c. if windows_illegal c then CHR ''_'' else c) arcname"
  from assms obtain y where y: "y \<in> set (split sep ?tr)" and p: "p = rstrip_dots y" and ne: "p \<noteq> []"
    by (auto simp: sanitize_windows_parts_def)
  have "sep \<notin> set y" using y by (rule split_parts_no_sep)
  then have 1: "sep \<notin> set p" using set_rstrip_dots [of y] p by auto
  have "set y \<subseteq> set ?tr" using y by (rule split_parts_subset)
  then have 2: "set p \<subseteq> set ?tr" using set_rstrip_dots [of y] p by auto
  have 3: "CHR ''/'' \<notin> set arcname \<Longrightarrow> CHR ''/'' \<notin> set ?tr" by auto
  show ?thesis using ne 1 2 3 rstrip_dots_not_dot [of y] p by auto
qed

lemma arc_parts_plain:
  assumes "p \<in> set (arc_parts os name)"
  shows "p \<noteq> [] \<and> p \<noteq> ''.'' \<and> p \<noteq> ''..'' \<and> os_sep os \<notin> set p
         \<and> (os = Nt \<longrightarrow> CHR ''/'' \<notin> set p)"
proof (cases os)
  case Posix
  then have "p \<in> set (filter (\<lambda>x. \<not> invalid_path_part x) (split (CHR ''/'') (replace (CHR ''/'') (CHR ''/'') name)))"
    using assms by (simp add: arc_parts_def os_sep_def splitdrive_def Let_def)
  then show ?thesis
    using Posix split_parts_no_sep [of p "CHR ''/''"]
    by (auto simp: invalid_path_part_def os_sep_def)
next
  case Nt
  let ?sep = "CHR 0x5C"
  let ?a0 = "replace (CHR ''/'') ?sep name"
  let ?a1 = "snd (nt_splitdrive ?a0)"
  let ?parts = "filter (\<lambda>x. \<not> invalid_path_part x) (split ?sep ?a1)"
  have p: "p \<in> set (sanitize_windows_parts (join ?sep ?parts) ?sep)"
    using assms Nt by (simp add: arc_parts_def os_sep_def splitdrive_def Let_def)
  have "CHR ''/'' \<notin> set ?a0" by (rule set_replace) simp
  then have a1: "CHR ''/'' \<notin> set ?a1" using set_snd_nt_splitdrive [of ?a0] by auto
  have "\<And>q. q \<in> set ?parts \<Longrightarrow> CHR ''/'' \<notin> set q"
    using a1 split_parts_subset [of _ ?sep ?a1] by auto
  then have "CHR ''/'' \<notin> set (join ?sep ?parts)"
    using set_join_subset [of ?sep ?parts] by auto
  then show ?thesis
    using sanitize_windows_parts_plain [OF p] Nt by (simp add: os_sep_def)
qed


lemma foldl_step_plain:
  "(\<forall>p \<in> set ps. p \<noteq> [] \<and> p \<noteq> ''.'' \<and> p \<noteq> ''..'') \<Longrightarrow> foldl step acc ps = acc @ ps"
  by (induction ps arbitrary: acc) (auto simp: step_def)

lemma components_append_sep:
  "is_sep os c \<Longrightarrow> components os (xs @ c # ys) = components os xs @ components os ys"
  by (cases os) (auto simp: components_def is_sep_def os_sep_def replace_def split_append_sep)

lemma components_Nil: "components os [] = [[]]"
  by (simp add: components_def replace_def)

lemma resolve_join:
  assumes plain: "\<forall>p \<in> set ps. p \<noteq> [] \<and> p \<noteq> ''.'' \<and> p \<noteq> ''..'' \<and> os_sep os \<notin> set p
                    \<and> (os = Nt \<longrightarrow> CHR ''/'' \<notin> set p)"
  shows "resolve os wd (os_path_join os t (join (os_sep os) ps)) = resolve os wd t @ ps"
proof -
  let ?sep = "os_sep os"
  let ?a = "join ?sep ps"
  have nosep: "\<And>c. c \<in> set ?a \<Longrightarrow> c \<noteq> ?sep \<Longrightarrow> \<not> is_sep os c"
    using set_join_subset [of ?sep ps] plain by (auto simp: is_sep_def)
  have hd_a: "?a = [] \<or> \<not> is_sep os (hd ?a)"
  proof (cases ps)
    case Nil
    then show ?thesis by simp
  next
    case (Cons p ps')
    then have "p \<noteq> []" and "\<forall>c \<in> set p. \<not> is_sep os c"
      using plain by (auto simp: is_sep_def)
    then show ?thesis using join_hd [of ps ?sep] Cons by (cases p) auto
  qed
  have slash: "os = Nt \<Longrightarrow> CHR ''/'' \<notin> set ?a"
    using set_join_subset [of ?sep ps] plain by (auto simp: os_sep_def)
  have comp_a: "components os ?a = (if ps = [] then [[]] else ps)"
  proof (cases "ps = []")
    case True
    then show ?thesis by (simp add: components_Nil)
  next
    case False
    have "split ?sep ?a = ps" using False plain by (intro split_join) auto
    then show ?thesis using False slash by (cases os) (auto simp: components_def replace_id)
  qed
  have fold_a: "\<And>acc. foldl step acc (components os ?a) = acc @ ps"
    using plain by (auto simp: comp_a foldl_step_plain step_def)
  show ?thesis
  proof (cases "t = []")
    case True
    have "os_path_join os t ?a = ?a" using True hd_a by (auto simp: os_path_join_def)
    moreover have "\<not> is_abs os ?a" using hd_a by (auto simp: is_abs_def)
    moreover have "\<not> is_abs os []" by (simp add: is_abs_def)
    ultimately show ?thesis
      using True fold_a by (simp add: resolve_def components_Nil step_def)
  next
    case False
    then obtain t' c where t: "t = t' @ [c]" by (cases t rule: rev_cases) auto
    have abs: "is_abs os (os_path_join os t ?a) = is_abs os t"
      using False hd_a by (cases t) (auto simp: os_path_join_def is_abs_def)
    show ?thesis
    proof (cases "is_sep os c")
      case True
      then have j: "os_path_join os t ?a = t' @ c # ?a"
        using t hd_a by (auto simp: os_path_join_def)
      have "components os t = components os t' @ [[]]"
        using components_append_sep [OF True, of t' "[]"] t by (simp add: components_Nil)
      then show ?thesis
        using abs j components_append_sep [OF True, of t' ?a] fold_a
        by (simp add: resolve_def step_def)
    next
      case False
      then have j: "os_path_join os t ?a = t @ ?sep # ?a"
        using t hd_a by (auto simp: os_path_join_def)
      have "is_sep os ?sep" by (simp add: is_sep_def)
      then show ?thesis
        using abs j components_append_sep [of os ?sep t ?a] fold_a
        by (simp add: resolve_def)
    qed
  qed
qed

lemma extract_target:
  "resolve os wd (os_path_join os t (arcname_of os name)) = resolve os wd t @ arc_parts os name"
  unfolding arcname_of_def using arc_parts_plain [of _ os name] by (intro resolve_join) blast

subsection \<open>Extraction stays below the target directory\<close>

lemma lookup_None [simp]: "lookup None p = None"
  by (cases p) auto

lemma file_of_simps [simp]:
  "file_of None = None" "file_of (Some (Dir es)) = None" "file_of (Some (File b m)) = Some (b, m)"
  by (simp_all add: file_of_def)

lemma alter_frame:
  "alter mk p f x = Inr y \<Longrightarrow> \<not> prefix p q \<Longrightarrow> file_of (lookup y q) = file_of (lookup x q)"
proof (induction p arbitrary: x y q)
  case Nil
  then show ?case by simp
next
  case (Cons c cs)
  show ?case
  proof (cases x)
    case None
    then show ?thesis
      using Cons.prems Cons.IH [of None _ "tl q"]
      by (cases q) (auto split: if_splits sum.splits option.splits)
  next
    case (Some n)
    show ?thesis
    proof (cases n)
      case (File b m)
      then show ?thesis using Cons.prems Some by simp
    next
      case (Dir es)
      then show ?thesis
        using Cons.prems Some Cons.IH [of "map_of es c" _ "tl q"]
        by (cases q) (auto simp: update_conv' delete_conv' split: sum.splits option.splits)
    qed
  qed
qed

lemma alter_mkdir_frame:
  "alter True p mkdir_f x = Inr y \<Longrightarrow> file_of (lookup y q) = file_of (lookup x q)"
proof (induction p arbitrary: x y q)
  case Nil
  then show ?case
    by (cases q) (auto simp: mkdir_f_def split: option.splits node.splits)
next
  case (Cons c cs)
  show ?case
  proof (cases x)
    case None
    then show ?thesis
      using Cons.prems Cons.IH [of None _ "tl q"]
      by (cases q) (auto split: if_splits sum.splits option.splits)
  next
    case (Some n)
    show ?thesis
    proof (cases n)
      case (File b m)
      then show ?thesis using Cons.prems Some by simp
    next
      case (Dir es)
      then show ?thesis
        using Cons.prems Some Cons.IH [of "map_of es c" _ "tl q"]
        by (cases q) (auto simp: update_conv' delete_conv' split: sum.splits option.splits)
    qed
  qed
qed

lemma fs_alter_frame:
  "fs_alter mk p f n = Inr n' \<Longrightarrow> \<not> prefix p q \<Longrightarrow> file_at n' q = file_at n q"
  using alter_frame [of mk p f "Some n" "Some n'" q]
  by (auto simp: fs_alter_def file_at_def split: sum.splits option.splits)

lemma makedirs_frame: "makedirs p n = Inr n' \<Longrightarrow> file_at n' q = file_at n q"
  using alter_mkdir_frame [of p "Some n" "Some n'" q]
  by (auto simp: makedirs_def fs_alter_def file_at_def split: sum.splits option.splits)

lemma extract_member_frame:
  assumes "extract_member os wd m t n = Inr n'" and "\<not> prefix (resolve os wd t) q"
  shows "file_at n' q = file_at n q"
proof -
  let ?target = "resolve os wd (os_path_join os t (arcname_of os (filename m)))"
  have "prefix (resolve os wd t) ?target" by (simp add: extract_target)
  then have np: "\<not> prefix ?target q" using assms(2) by (auto dest: prefix_order.trans)
  obtain n1 where n1: "(if exists n (butlast ?target) then Inr n else makedirs (butlast ?target) n) = Inr n1"
    using assms(1) by (auto simp: extract_member_def Let_def split: sum.splits)
  have 1: "file_at n1 q = file_at n q"
    using n1 makedirs_frame by (auto split: if_splits)
  have "(if is_dir os m then (if isdir n1 ?target then Inr n1 else fs_alter False ?target mkdir1_f n1)
         else write_file ?target (data m) n1) = Inr n'"
    using assms(1) n1 by (auto simp: extract_member_def Let_def split: sum.splits)
  then have "file_at n' q = file_at n1 q"
    using np fs_alter_frame by (auto simp: write_file_def split: if_splits)
  then show ?thesis using 1 by simp
qed

lemma extractall_frame:
  "\<not> prefix (resolve os wd t) q \<Longrightarrow>
   file_at (fs (snd (extractall os wd ms names t w))) q = file_at (fs w) q"
proof (induction names arbitrary: w)
  case Nil
  then show ?case by simp
next
  case (Cons name names)
  then show ?case
    using extract_member_frame [of os wd _ t "fs w" _ q]
    by (auto split: option.splits sum.splits)
qed

text \<open>
  C1: for every archive and target directory, \<^verbatim>\<open>extract_zip\<close> leaves every file
  outside the target directory as it was: none is created, changed or removed there,
  whatever the entry names are and also when the extraction breaks off. An entry with
  \<^verbatim>\<open>..\<close> segments or an absolute name is written below the target directory, under
  the parts of its name that \<^const>\<open>arc_parts\<close> keeps.
\<close>

theorem extract_zip_stays_inside:
  "\<not> prefix (resolve (platform e) (cwd e) targetDir) q \<Longrightarrow>
   file_at (fs (snd (extract_zip e archivePath targetDir w))) q = file_at (fs w) q"
  using extractall_frame [of "platform e" "cwd e" targetDir q]
    makedirs_frame [of "resolve (platform e) (cwd e) targetDir" "fs w" _ q]
  by (auto simp: extract_zip_def split: sum.splits option.splits)

theorem extract_zip_stays_inside_witness:
  "\<not> prefix (resolve (platform (ex_env Posix ex_traversal)) (cwd (ex_env Posix ex_traversal)) ''extracted'')
       [''etc'', ''passwd'']
   \<and> file_at (fs (snd (extract_zip (ex_env Posix ex_traversal) ''downloaded.zip'' ''extracted''
                        ex_world_etc))) [''etc'', ''passwd'']
       = Some (''root'', False)
   \<and> file_at (fs (snd (extract_zip (ex_env Posix ex_traversal) ''downloaded.zip'' ''extracted''
                        ex_world_etc))) [''work'', ''extracted'', ''etc'', ''passwd'']
       = Some (''x'', False)
   \<and> fst (extract_zip (ex_env Posix ex_traversal) ''downloaded.zip'' ''extracted'' ex_world_etc)
       = Inr ()"
proof -
  have h: "\<not> prefix (resolve (platform (ex_env Posix ex_traversal))
                       (cwd (ex_env Posix ex_traversal)) ''extracted'') [''etc'', ''passwd'']"
    by code_simp
  have before: "file_at (fs ex_world_etc) [''etc'', ''passwd''] = Some (''root'', False)"
    by code_simp
  have inside: "file_at (fs (snd (extract_zip (ex_env Posix ex_traversal) ''downloaded.zip''
                       ''extracted'' ex_world_etc))) [''work'', ''extracted'', ''etc'', ''passwd'']
                = Some (''x'', False)"
    by code_simp
  have ok: "fst (extract_zip (ex_env Posix ex_traversal) ''downloaded.zip'' ''extracted''
              ex_world_etc) = Inr ()"
    by code_simp
  show ?thesis
    using extract_zip_stays_inside [OF h, of "''downloaded.zip''" ex_world_etc] h before inside ok
    by simp
qed

subsection \<open>The Locator\<close>

lemma find_exe_files_find:
  "find_exe_files os root files =
     map_option (\<lambda>x. os_path_join os (fst x) (snd x))
       (List.find (\<lambda>x. endswith (snd x) ''.exe'') (map (\<lambda>file. (root, file)) files))"
  by (induction files) auto

lemma find_append_if:
  "List.find P (xs @ ys) = (case List.find P xs of Some x \<Rightarrow> Some x | None \<Rightarrow> List.find P ys)"
  by (induction xs) auto

lemma find_exe_loop_find:
  "find_exe_loop os triples =
     map_option (\<lambda>x. os_path_join os (fst x) (snd x))
       (List.find (\<lambda>x. endswith (snd x) ''.exe'')
          (concat (map (\<lambda>(root, dirs, files). map (\<lambda>file. (root, file)) files) triples)))"
proof (induction os triples rule: find_exe_loop.induct)
  case (1 os)
  then show ?case by simp
next
  case (2 os root dirs files rest)
  then show ?case
    by (simp add: find_exe_files_find find_append_if split: option.splits)
qed

lemma find_None_filter: "(List.find P xs = None) = (filter P xs = [])"
  by (induction xs) auto

text \<open>
  C5, as the code has it: on every platform \<^verbatim>\<open>find_exe\<close> returns the first file in
  traversal order whose name ends with \<^verbatim>\<open>.exe\<close>, joined to the directory it was
  found in; it returns \<^verbatim>\<open>None\<close> exactly when no file name of the walk ends so; the
  world is returned unchanged. The permission bits are never read, so the result is the
  specification's Locator on \<^verbatim>\<open>nt\<close>.
\<close>
theorem find_exe_first_exe_suffix:
  "find_exe e d w =
     (Inr (map_option (\<lambda>x. os_path_join (platform e) (fst x) (snd x))
             (List.find (\<lambda>x. endswith (snd x) ''.exe'') (walk_entries e d w))), w)
   \<and> ((fst (find_exe e d w) = Inr None)
        = (filter (\<lambda>x. endswith (snd x) ''.exe'') (walk_entries e d w) = []))
   \<and> (platform e = Nt \<longrightarrow> fst (find_exe e d w) = Inr (spec_findExecutable e d w))"
proof -
  have 1: "find_exe e d w =
     (Inr (map_option (\<lambda>x. os_path_join (platform e) (fst x) (snd x))
             (List.find (\<lambda>x. endswith (snd x) ''.exe'') (walk_entries e d w))), w)"
    by (simp add: find_exe_def find_exe_loop_find walk_entries_def)
  have 2: "platform e = Nt \<Longrightarrow> spec_convention e w = (\<lambda>x. endswith (snd x) ''.exe'')"
    by (auto simp: spec_convention_def)
  show ?thesis
    using 2 by (auto simp: 1 find_None_filter spec_findExecutable_def)
qed

theorem find_exe_first_exe_suffix_witness:
  "platform (ex_env Nt ex_members) = Nt
   \<and> fst (find_exe (ex_env Nt ex_members) ''extracted''
            (snd (main_locate (ex_env Nt ex_members) (config_of (ex_env Nt ex_members) ex_args) ex_world)))
     = Inr (Some (''extracted'' @ [CHR 0x5C] @ ''tool'' @ [CHR 0x5C] @ ''setup.exe''))
   \<and> spec_findExecutable (ex_env Nt ex_members) ''extracted''
            (snd (main_locate (ex_env Nt ex_members) (config_of (ex_env Nt ex_members) ex_args) ex_world))
     = Some (''extracted'' @ [CHR 0x5C] @ ''tool'' @ [CHR 0x5C] @ ''setup.exe'')"
proof -
  have h: "platform (ex_env Nt ex_members) = Nt" by code_simp
  have v: "fst (find_exe (ex_env Nt ex_members) ''extracted''
            (snd (main_locate (ex_env Nt ex_members) (config_of (ex_env Nt ex_members) ex_args) ex_world)))
     = Inr (Some (''extracted'' @ [CHR 0x5C] @ ''tool'' @ [CHR 0x5C] @ ''setup.exe''))"
    by code_simp
  show ?thesis
    using find_exe_first_exe_suffix [of "ex_env Nt ex_members" "''extracted''"
        "snd (main_locate (ex_env Nt ex_members) (config_of (ex_env Nt ex_members) ex_args) ex_world)"]
      h v by simp
qed

text \<open>
  On \<^verbatim>\<open>posix\<close> the claim's Locator selects the file with the executable bit; the
  code returns \<^verbatim>\<open>None\<close>.
\<close>

theorem find_exe_ignores_permission_bit:
  "fst (find_exe (ex_env Posix ex_members) ''extracted'' ex_world_sh) = Inr None
   \<and> spec_findExecutable (ex_env Posix ex_members) ''extracted'' ex_world_sh
       = Some ''extracted/bin/run.sh''"
  by code_simp

subsection \<open>The fetch\<close>

lemma alter_same: "alter mk p f x = Inr y \<Longrightarrow> f (lookup x p) = Inr (lookup y p)"
proof (induction p arbitrary: x y)
  case Nil
  then show ?case by simp
next
  case (Cons c cs)
  show ?case
  proof (cases x)
    case None
    then show ?thesis
      using Cons.prems Cons.IH [of None]
      by (auto split: if_splits sum.splits option.splits)
  next
    case (Some n)
    show ?thesis
    proof (cases n)
      case (File b m)
      then show ?thesis using Cons.prems Some by simp
    next
      case (Dir es)
      then show ?thesis
        using Cons.prems Some Cons.IH [of "map_of es c"]
        by (auto simp: update_conv' delete_conv' split: sum.splits option.splits)
    qed
  qed
qed

lemma fs_alter_same: "fs_alter mk p f n = Inr n' \<Longrightarrow> Inr (lookup (Some n') p) = f (lookup (Some n) p)"
  using alter_same [of mk p f "Some n" "Some n'"]
  by (auto simp: fs_alter_def split: sum.splits option.splits)

lemma write_file_same:
  assumes "write_file p bytes n = Inr n'"
  shows "\<exists>m. file_at n' p = Some (bytes, m)"
proof -
  have "Inr (lookup (Some n') p) = write_f bytes (lookup (Some n) p)"
    using assms unfolding write_file_def by (rule fs_alter_same)
  then have "\<exists>m. lookup (Some n') p = Some (File bytes m)"
    by (auto simp: write_f_def split: option.splits node.splits)
  then show ?thesis by (auto simp: file_at_def)
qed

text \<open>
  C6, as the code has it: when the GET itself raises (the host is unreachable, the
  connection times out) or the status is between 400 and 599, \<^verbatim>\<open>download_zip\<close>
  raises and the file system is as it was, so nothing is written at the destination.
  When the stream breaks off after the file has been opened, the exception is raised and
  the destination holds the chunks received so far.
\<close>

theorem download_zip_failures:
  "(http e url = GetRaises x \<longrightarrow>
      fst (download_zip e url save_path w) = Inl x
      \<and> fs (snd (download_zip e url save_path w)) = fs w)
   \<and> (http e url = Response status chunks broken \<and> raise_for_status status \<longrightarrow>
      fst (download_zip e url save_path w) = Inl (Error ''HTTPError'')
      \<and> fs (snd (download_zip e url save_path w)) = fs w)
   \<and> (http e url = Response status chunks (Some x) \<and> \<not> raise_for_status status
        \<and> write_file (resolve (platform e) (cwd e) save_path) (concat chunks) (fs w) = Inr n \<longrightarrow>
      fst (download_zip e url save_path w) = Inl x
      \<and> fs (snd (download_zip e url save_path w)) = n
      \<and> (\<exists>m. file_at n (resolve (platform e) (cwd e) save_path) = Some (concat chunks, m)))"
  using write_file_same [of "resolve (platform e) (cwd e) save_path" "concat chunks" "fs w" n]
  by (auto simp: download_zip_def Let_def)

theorem download_zip_failures_witness:
  "(http ex_env_unreachable ''https://example.test/pack.zip'' = GetRaises (Error ''ConnectionError'')
      \<and> fst (download_zip ex_env_unreachable ''https://example.test/pack.zip'' ''downloaded.zip'' ex_world)
          = Inl (Error ''ConnectionError'')
      \<and> fs (snd (download_zip ex_env_unreachable ''https://example.test/pack.zip'' ''downloaded.zip''
                   ex_world)) = fs ex_world)
   \<and> (http ex_env_404 ''https://example.test/pack.zip'' = Response 404 [] None
      \<and> raise_for_status 404
      \<and> fst (download_zip ex_env_404 ''https://example.test/pack.zip'' ''downloaded.zip'' ex_world)
          = Inl (Error ''HTTPError'')
      \<and> fs (snd (download_zip ex_env_404 ''https://example.test/pack.zip'' ''downloaded.zip'' ex_world))
          = fs ex_world)
   \<and> (http ex_env_broken_stream ''https://example.test/pack.zip''
          = Response 200 [''PK''] (Some (Error ''ReadTimeout''))
      \<and> \<not> raise_for_status 200
      \<and> write_file (resolve (platform ex_env_broken_stream) (cwd ex_env_broken_stream) ''downloaded.zip'')
           (concat [''PK'']) (fs ex_world)
          = Inr (Dir [(''work'', Dir [(''downloaded.zip'', File ''PK'' False)])])
      \<and> fst (download_zip ex_env_broken_stream ''https://example.test/pack.zip'' ''downloaded.zip''
                ex_world) = Inl (Error ''ReadTimeout''))"
proof -
  have a: "http ex_env_unreachable ''https://example.test/pack.zip'' = GetRaises (Error ''ConnectionError'')"
    by code_simp
  have b: "http ex_env_404 ''https://example.test/pack.zip'' = Response 404 [] None"
    by code_simp
  have b': "raise_for_status 404" by code_simp
  have c: "http ex_env_broken_stream ''https://example.test/pack.zip''
          = Response 200 [''PK''] (Some (Error ''ReadTimeout''))"
    by code_simp
  have c': "\<not> raise_for_status 200" by code_simp
  have c'': "write_file (resolve (platform ex_env_broken_stream) (cwd ex_env_broken_stream) ''downloaded.zip'')
           (concat [''PK'']) (fs ex_world)
          = Inr (Dir [(''work'', Dir [(''downloaded.zip'', File ''PK'' False)])])"
    by code_simp
  show ?thesis
    using download_zip_failures [of ex_env_unreachable "''https://example.test/pack.zip''"
        "Error ''ConnectionError''" "''downloaded.zip''" ex_world]
      download_zip_failures [of ex_env_404 "''https://example.test/pack.zip''" _
        "''downloaded.zip''" ex_world 404 "[]" None]
      download_zip_failures [of ex_env_broken_stream "''https://example.test/pack.zip''"
        "Error ''ReadTimeout''" "''downloaded.zip''" ex_world 200 "[''PK'']" _
        "Dir [(''work'', Dir [(''downloaded.zip'', File ''PK'' False)])]"]
      a b b' c c' c'' by simp
qed

text \<open>
  A fetch that times out while the body is streamed: the error is raised and the
  destination is left holding the part that had arrived.
\<close>

theorem download_zip_leaves_partial_file:
  "fst (download_zip ex_env_broken_stream ''https://example.test/pack.zip'' ''downloaded.zip'' ex_world)
     = Inl (Error ''ReadTimeout'')
   \<and> file_at (fs (snd (download_zip ex_env_broken_stream ''https://example.test/pack.zip''
                        ''downloaded.zip'' ex_world))) [''work'', ''downloaded.zip'']
     = Some (''PK'', False)"
  by code_simp

subsection \<open>What the stages leave of the world\<close>



lemma extractall_out [simp]:
  "out (snd (extractall os wd ms names t w)) = out w"
  "procs (snd (extractall os wd ms names t w)) = procs w"
  by (induction names arbitrary: w) (auto split: option.splits sum.splits)


lemma find_exe_world [simp]: "snd (find_exe e d w) = w"
  by (simp add: find_exe_def)







subsection \<open>Staging\<close>




lemma resolve_name:
  "resolve os wd ''extracted'' = wd @ [''extracted'']"
  "resolve os wd ''downloaded.zip'' = wd @ [''downloaded.zip'']"
  "resolve os wd ''temp_setup.exe'' = wd @ [''temp_setup.exe'']"
  "resolve os wd ''cleanup.bat'' = wd @ [''cleanup.bat'']"
  by (cases os; simp add: resolve_def is_abs_def is_sep_def os_sep_def components_def replace_def step_def)+

lemma config_of_paths [simp]:
  "extract_path (config_of e a) = ''extracted''" "download_path (config_of e a) = ''downloaded.zip''"
  by (auto simp: config_of_def NFTConfig_init_def split: option.splits)


lemma fs_call_cases:
  "fs_call f w = (r, w') \<Longrightarrow>
     (\<exists>x. r = Inl x \<and> f (fs w) = Inl x \<and> w' = w)
     \<or> (\<exists>n. r = Inr () \<and> f (fs w) = Inr n \<and> w' = w\<lparr>fs := n\<rparr>)"
  by (auto simp: fs_call_def split: sum.splits)












lemma os_remove_gone: "os_remove p n = Inr n' \<Longrightarrow> \<not> exists n' p"
proof -
  assume "os_remove p n = Inr n'"
  then have "Inr (lookup (Some n') p) = remove_f (lookup (Some n) p)"
    unfolding os_remove_def by (rule fs_alter_same)
  then show ?thesis
    by (auto simp: remove_f_def exists_def split: option.splits node.splits)
qed

















subsection \<open>The launch and the detached helper\<close>

lemma helper_commands:
  "map parse_batch_line (split LF (batch_content temp_exe))
     = [EchoOff, Start temp_exe, Timeout 3, Del temp_exe, DelSelf]"
  by (simp add: batch_content_def batch_lines_def temp_exe_def LF_def DQ_def
        parse_batch_line_def quoted_def startswith_def)

lemma alter_remove_fails:
  "alter False p remove_f x = Inl err \<Longrightarrow> file_of (lookup x p) = None"
proof (induction p arbitrary: x)
  case Nil
  then show ?case by (auto simp: remove_f_def split: option.splits node.splits)
next
  case (Cons c cs)
  show ?case
  proof (cases x)
    case None
    then show ?thesis by simp
  next
    case (Some n)
    then show ?thesis
      using Cons.prems Cons.IH [of "map_of (case n of Dir es \<Rightarrow> es | _ \<Rightarrow> []) c"]
      by (cases n) (auto split: sum.splits option.splits)
  qed
qed

lemma alter_Cons_not_None: "alter mk (c # cs) f (Some n) \<noteq> Inr None"
  by (cases n) (auto split: sum.splits option.splits)

lemma del_absent:
  assumes "resolve (platform e) (cwd e) x \<noteq> []"
  shows "file_at (fs (del e x w)) (resolve (platform e) (cwd e) x) = None"
proof (cases "os_remove (resolve (platform e) (cwd e) x) (fs w)")
  case (Inl err)
  obtain c cs where p: "resolve (platform e) (cwd e) x = c # cs"
    using assms by (cases "resolve (platform e) (cwd e) x") auto
  have "alter False (c # cs) remove_f (Some (fs w)) = Inl err"
    using Inl p alter_Cons_not_None [of False c cs remove_f "fs w"]
    by (auto simp: os_remove_def fs_alter_def split: sum.splits option.splits)
  then show ?thesis using Inl p alter_remove_fails by (simp add: del_def file_at_def)
next
  case (Inr n)
  then show ?thesis using os_remove_gone [OF Inr] by (simp add: del_def file_at_def exists_def)
qed

lemma del_frame:
  "\<not> prefix (resolve (platform e) (cwd e) x) q \<Longrightarrow> file_at (fs (del e x w)) q = file_at (fs w) q"
  using fs_alter_frame [of False "resolve (platform e) (cwd e) x" remove_f "fs w" _ q]
  by (auto simp: del_def os_remove_def split: sum.splits)

text \<open>
  On \<^verbatim>\<open>nt\<close>, after a launch that succeeded, the detached helper starts the staged
  executable, waits three seconds, deletes the executable and deletes itself: neither
  file is left.
\<close>
theorem nt_helper_deletes_staged_executable:
  "platform e = Nt \<and> run_exe e temp_exe w = (Inr (), w1) \<longrightarrow>
     last (procs w1) = Popen [batch_file] True
     \<and> snd (run_detached e (last (procs w1)) w1)
         = [Started temp_exe, Waited 3, Deleted temp_exe, Deleted batch_file]
     \<and> file_at (fs (fst (run_detached e (last (procs w1)) w1)))
          (resolve (platform e) (cwd e) temp_exe) = None
     \<and> file_at (fs (fst (run_detached e (last (procs w1)) w1)))
          (resolve (platform e) (cwd e) batch_file) = None"
proof (intro impI, elim conjE)
  assume nt: "platform e = Nt" and run: "run_exe e temp_exe w = (Inr (), w1)"
  let ?B = "resolve (platform e) (cwd e) batch_file"
  let ?T = "resolve (platform e) (cwd e) temp_exe"
  obtain n where n: "write_file ?B (batch_content temp_exe) (fs w) = Inr n"
    and w1: "w1 = w\<lparr>fs := n, procs := procs w @ [Popen [batch_file] True]\<rparr>"
    using run nt by (auto simp: run_exe_def bind_def fs_call_def split: sum.splits)
  obtain m where m: "file_at n ?B = Some (batch_content temp_exe, m)"
    using write_file_same [OF n] by blast
  let ?w2 = "w1\<lparr>procs := procs w1 @ [Popen [temp_exe] False]\<rparr>"
  have det: "run_detached e (last (procs w1)) w1
      = (del e batch_file (del e temp_exe ?w2),
         [Started temp_exe, Waited 3, Deleted temp_exe, Deleted batch_file])"
    using m w1 by (simp add: run_detached_def helper_commands)
  have ne: "\<not> prefix ?B ?T"
    by (simp add: resolve_name batch_file_def temp_exe_def)
  have "file_at (fs (del e batch_file (del e temp_exe ?w2))) ?T = None"
    using del_frame [OF ne] del_absent [of e temp_exe]
    by (simp add: resolve_name temp_exe_def)
  moreover have "file_at (fs (del e batch_file (del e temp_exe ?w2))) ?B = None"
    by (rule del_absent) (simp add: resolve_name batch_file_def)
  ultimately show "last (procs w1) = Popen [batch_file] True
     \<and> snd (run_detached e (last (procs w1)) w1)
         = [Started temp_exe, Waited 3, Deleted temp_exe, Deleted batch_file]
     \<and> file_at (fs (fst (run_detached e (last (procs w1)) w1))) ?T = None
     \<and> file_at (fs (fst (run_detached e (last (procs w1)) w1))) ?B = None"
    using det w1 by simp
qed

theorem nt_helper_deletes_staged_executable_witness:
  "platform (ex_env Nt ex_members) = Nt
   \<and> run_exe (ex_env Nt ex_members) temp_exe (ex_staged (ex_env Nt ex_members))
      = (Inr (), snd (run_exe (ex_env Nt ex_members) temp_exe (ex_staged (ex_env Nt ex_members))))
   \<and> file_at (fs (snd (run_exe (ex_env Nt ex_members) temp_exe (ex_staged (ex_env Nt ex_members)))))
        [''work'', ''temp_setup.exe''] = Some (''MZ'', False)
   \<and> file_at (fs (fst (run_detached (ex_env Nt ex_members) (last (procs (snd (run_exe (ex_env Nt ex_members) temp_exe
                                          (ex_staged (ex_env Nt ex_members))))))
                         (snd (run_exe (ex_env Nt ex_members) temp_exe
                                 (ex_staged (ex_env Nt ex_members)))))))
        [''work'', ''temp_setup.exe''] = None
   \<and> file_at (fs (fst (run_detached (ex_env Nt ex_members) (last (procs (snd (run_exe (ex_env Nt ex_members) temp_exe
                                          (ex_staged (ex_env Nt ex_members))))))
                         (snd (run_exe (ex_env Nt ex_members) temp_exe
                                 (ex_staged (ex_env Nt ex_members)))))))
        [''work'', ''cleanup.bat''] = None"
proof -
  let ?e = "ex_env Nt ex_members"
  let ?w1 = "snd (run_exe ?e temp_exe (ex_staged ?e))"
  have a: "platform ?e = Nt" by code_simp
  have b: "run_exe ?e temp_exe (ex_staged ?e) = (Inr (), ?w1)" by code_simp
  have c: "file_at (fs ?w1) [''work'', ''temp_setup.exe''] = Some (''MZ'', False)" by code_simp
  have d: "resolve (platform ?e) (cwd ?e) temp_exe = [''work'', ''temp_setup.exe'']" by code_simp
  have d': "resolve (platform ?e) (cwd ?e) batch_file = [''work'', ''cleanup.bat'']" by code_simp
  have r: "file_at (fs (fst (run_detached ?e (last (procs ?w1)) ?w1)))
             (resolve (platform ?e) (cwd ?e) temp_exe) = None
           \<and> file_at (fs (fst (run_detached ?e (last (procs ?w1)) ?w1)))
               (resolve (platform ?e) (cwd ?e) batch_file) = None"
    using nt_helper_deletes_staged_executable [of ?e "ex_staged ?e" ?w1] a b by blast
  show ?thesis
    using r a b c unfolding d d' by blast
qed

text \<open>
  C4: on every platform the staged executable is to be deleted by a detached step after
  the launch. On \<^verbatim>\<open>posix\<close> the code starts \<^verbatim>\<open>wine temp_setup.exe\<close> and arranges
  nothing else: the run ends normally, the one process started has no helper to run, and
  the staged executable stays on disk.
\<close>

theorem posix_launch_keeps_staged_executable:
  "fst (script (ex_env Posix ex_members) ex_world) = 0
   \<and> procs (snd (script (ex_env Posix ex_members) ex_world))
       = [Popen [''wine'', ''temp_setup.exe''] False]
   \<and> run_detached (ex_env Posix ex_members) (Popen [''wine'', ''temp_setup.exe''] False)
        (snd (script (ex_env Posix ex_members) ex_world))
       = (snd (script (ex_env Posix ex_members) ex_world), [])
   \<and> file_at (fs (snd (script (ex_env Posix ex_members) ex_world))) [''work'', ''temp_setup.exe'']
       = Some (''MZ'', False)"
  by code_simp

end
